theory Spec2Isabelle
  imports Complex_Main
begin

chapter \<open>Sky-Planner: the weather-derived recommendation engine of index.js\<close>

text \<open>
  The engine of \<^verbatim>\<open>index.js\<close> is four functions: \<^verbatim>\<open>getWeatherData\<close> turns the provider's
  response into a weather object whose fields are display strings
  (\<^verbatim>\<open>"21\<degree>C"\<close>, \<^verbatim>\<open>"40%"\<close>, \<^verbatim>\<open>"12 km/h"\<close>, \<^verbatim>\<open>"7 (High)"\<close>), and \<^verbatim>\<open>calculateRiskLevel\<close>,
  \<^verbatim>\<open>generatePackingList\<close> and \<^verbatim>\<open>generateTimeSlots\<close> read those strings back with
  \<^verbatim>\<open>parseInt\<close>. The embedding keeps that shape: the weather object is a record of
  strings, and \<^verbatim>\<open>parseInt\<close> is a function on strings.

  A JavaScript string is modelled as a \<^typ>\<open>string\<close> whose characters are the code units
  below 256 (Latin-1); the degree sign is the code unit \<open>0xB0\<close>.
\<close>

section \<open>Values\<close>

subsection \<open>parseInt\<close>

text \<open>
  \<^verbatim>\<open>parseInt(s)\<close> with no radix (ECMAScript 19.2.5): leading white space is dropped, one
  sign is read, a \<^verbatim>\<open>0x\<close> or \<^verbatim>\<open>0X\<close> prefix selects radix 16 (radix 10 otherwise), and the
  longest run of digits of that radix is the value; with no digit the result is \<^verbatim>\<open>NaN\<close>.
  The result is \<open>None\<close> for \<^verbatim>\<open>NaN\<close> and the mathematical integer otherwise. (JavaScript
  rounds that integer to a double; rounding is monotone and keeps every integer below
  \<open>2^53\<close>, so the comparisons with the small integer thresholds of this program read the
  same on both. \<^verbatim>\<open>-0\<close> is \<open>0\<close> here; no comparison tells them apart.)
\<close>

definition isWhiteSpace :: "char \<Rightarrow> bool" where
  "isWhiteSpace c =
     (c \<in> set [CHR 0x09, CHR 0x0A, CHR 0x0B, CHR 0x0C, CHR 0x0D, CHR 0x20, CHR 0xA0])"

definition digitValue :: "char \<Rightarrow> nat option" where
  "digitValue c =
     (let n = (of_char c :: nat) in
      if 48 \<le> n \<and> n \<le> 57 then Some (n - 48)
      else if 97 \<le> n \<and> n \<le> 102 then Some (n - 87)
      else if 65 \<le> n \<and> n \<le> 70 then Some (n - 55)
      else None)"

definition isRadixDigit :: "nat \<Rightarrow> char \<Rightarrow> bool" where
  "isRadixDigit R c = (case digitValue c of None \<Rightarrow> False | Some d \<Rightarrow> d < R)"

definition mathInt :: "nat \<Rightarrow> string \<Rightarrow> nat" where
  "mathInt R Z =
     foldl (\<lambda>acc c. case digitValue c of None \<Rightarrow> acc | Some d \<Rightarrow> acc * R + d) 0 Z"

definition parseInt :: "string \<Rightarrow> int option" where
  "parseInt inputString =
     (let S = dropWhile isWhiteSpace inputString;
          sign = (case S of c # _ \<Rightarrow> if c = CHR ''-'' then - 1 else 1 | [] \<Rightarrow> (1::int));
          S = (case S of c # rest \<Rightarrow> if c = CHR ''+'' \<or> c = CHR ''-'' then rest else S
               | [] \<Rightarrow> S);
          stripPrefix = (take 2 S = ''0x'' \<or> take 2 S = ''0X'');
          R = (if stripPrefix then 16 else 10);
          S = (if stripPrefix then drop 2 S else S);
          Z = takeWhile (isRadixDigit R) S
      in if Z = [] then None else Some (sign * int (mathInt R Z)))"

text \<open>
  A relational operator with a \<^verbatim>\<open>NaN\<close> operand is false.
\<close>

definition js_gt :: "int option \<Rightarrow> int \<Rightarrow> bool" where
  "js_gt x c = (case x of None \<Rightarrow> False | Some n \<Rightarrow> n > c)"

definition js_lt :: "int option \<Rightarrow> int \<Rightarrow> bool" where
  "js_lt x c = (case x of None \<Rightarrow> False | Some n \<Rightarrow> n < c)"

subsection \<open>Numbers and the values of the provider's fields\<close>

text \<open>
  A JavaScript number is a finite double, an infinity or \<^verbatim>\<open>NaN\<close>. Every finite double is
  a rational number, and the operations \<^verbatim>\<open>getWeatherData\<close> applies to numbers
  (\<^verbatim>\<open>Math.round\<close>, \<^verbatim>\<open>Math.max\<close>, \<^verbatim>\<open>Math.min\<close>, comparison, truthiness) are exact on
  doubles, so a finite number is modelled by its rational value: the model has every
  double and more. \<^verbatim>\<open>JSON.parse\<close> yields an infinity for a literal such as \<^verbatim>\<open>1e999\<close>.
  \<^verbatim>\<open>-0\<close> is \<open>0\<close>: both are falsy and both print as \<^verbatim>\<open>"0"\<close>.
\<close>

datatype number = Fin rat | PosInf | NegInf | NaN

text \<open>
  The value read from a field of the provider's \<^verbatim>\<open>current\<close> object: \<^verbatim>\<open>undefined\<close> when the
  field is missing, or any value \<^verbatim>\<open>JSON.parse\<close> builds. \<open>Object\<close> is a plain object; none
  of the conversions below looks at its members. (An object with a member named
  \<^verbatim>\<open>toString\<close> or \<^verbatim>\<open>valueOf\<close>, on which the conversions throw, is not in the type.)
\<close>

datatype jsvalue =
    Undefined
  | Null
  | Boolean bool
  | Number number
  | String string
  | Array "jsvalue list"
  | Object

text \<open>\<^verbatim>\<open>Math.round\<close>: the nearest integer, a tie going towards \<open>+\<infinity>\<close>.\<close>

fun Math_round :: "number \<Rightarrow> number" where
  "Math_round (Fin x) = Fin (of_int \<lfloor>x + 1 / 2\<rfloor>)"
| "Math_round n = n"

fun Math_max :: "number \<Rightarrow> number \<Rightarrow> number" where
  "Math_max NaN b = NaN"
| "Math_max a NaN = NaN"
| "Math_max PosInf b = PosInf"
| "Math_max a PosInf = PosInf"
| "Math_max NegInf b = b"
| "Math_max a NegInf = a"
| "Math_max (Fin x) (Fin y) = Fin (max x y)"

fun Math_min :: "number \<Rightarrow> number \<Rightarrow> number" where
  "Math_min NaN b = NaN"
| "Math_min a NaN = NaN"
| "Math_min NegInf b = NegInf"
| "Math_min a NegInf = NegInf"
| "Math_min PosInf b = b"
| "Math_min a PosInf = a"
| "Math_min (Fin x) (Fin y) = Fin (min x y)"

text \<open>\<^verbatim>\<open>n <= c\<close> for a finite constant \<open>c\<close>; false when \<open>n\<close> is \<^verbatim>\<open>NaN\<close>.\<close>

fun number_le :: "number \<Rightarrow> rat \<Rightarrow> bool" where
  "number_le (Fin x) c = (x \<le> c)"
| "number_le NegInf c = True"
| "number_le PosInf c = False"
| "number_le NaN c = False"

text \<open>
  Truthiness: \<^verbatim>\<open>undefined\<close>, \<^verbatim>\<open>null\<close>, \<^verbatim>\<open>false\<close>, \<^verbatim>\<open>0\<close>, \<^verbatim>\<open>NaN\<close> and the empty string are
  falsy, every other value is truthy.
\<close>

fun truthy :: "jsvalue \<Rightarrow> bool" where
  "truthy Undefined = False"
| "truthy Null = False"
| "truthy (Boolean b) = b"
| "truthy (Number (Fin x)) = (x \<noteq> 0)"
| "truthy (Number NaN) = False"
| "truthy (Number n) = True"
| "truthy (String s) = (s \<noteq> [])"
| "truthy (Array xs) = True"
| "truthy Object = True"

text \<open>\<^verbatim>\<open>v || d\<close>: \<open>v\<close> when \<open>v\<close> is truthy, \<open>d\<close> otherwise.\<close>

definition js_or :: "jsvalue \<Rightarrow> jsvalue \<Rightarrow> jsvalue" where
  "js_or v d = (if truthy v then v else d)"

text \<open>
  \<^verbatim>\<open>s || d\<close> for a string that may be missing: the missing and the empty string are
  falsy.
\<close>

fun or_string :: "string option \<Rightarrow> string \<Rightarrow> string" where
  "or_string (Some s) d = (if s \<noteq> [] then s else d)"
| "or_string None d = d"

subsection \<open>Numbers in template literals\<close>

fun showNat :: "nat \<Rightarrow> string" where
  "showNat n =
     (if n < 10 then [''0123456789'' ! n]
      else showNat (n div 10) @ [''0123456789'' ! (n mod 10)])"

declare showNat.simps [simp del]

definition showInt :: "int \<Rightarrow> string" where
  "showInt i = (if i < 0 then CHR ''-'' # showNat (nat (- i)) else showNat (nat i))"

text \<open>
  \<^verbatim>\<open>Number::toString\<close>. An integer of magnitude at most \<open>2^53\<close> prints as its decimal
  digits. The digits of any other finite double are the shortest that read back as the
  same double, which depends on the binary representation: they are the parameter
  \<open>digits\<close>, about which nothing is assumed.
\<close>

fun numberToString :: "(rat \<Rightarrow> string) \<Rightarrow> number \<Rightarrow> string" where
  "numberToString digits (Fin x) =
     (if of_int \<lfloor>x\<rfloor> = x \<and> \<bar>x\<bar> \<le> 2 ^ 53 then showInt \<lfloor>x\<rfloor> else digits x)"
| "numberToString digits PosInf = ''Infinity''"
| "numberToString digits NegInf = ''-Infinity''"
| "numberToString digits NaN = ''NaN''"

text \<open>
  \<^verbatim>\<open>ToString\<close>, which a template literal applies to its value. An array prints its
  elements separated by commas, \<^verbatim>\<open>undefined\<close> and \<^verbatim>\<open>null\<close> elements as nothing.
\<close>

fun toString :: "(rat \<Rightarrow> string) \<Rightarrow> jsvalue \<Rightarrow> string"
  and joinElements :: "(rat \<Rightarrow> string) \<Rightarrow> jsvalue list \<Rightarrow> string" where
  "toString digits Undefined = ''undefined''"
| "toString digits Null = ''null''"
| "toString digits (Boolean b) = (if b then ''true'' else ''false'')"
| "toString digits (Number n) = numberToString digits n"
| "toString digits (String s) = s"
| "toString digits (Array xs) = joinElements digits xs"
| "toString digits Object = ''[object Object]''"
| "joinElements digits [] = []"
| "joinElements digits [v] =
     (case v of Undefined \<Rightarrow> [] | Null \<Rightarrow> [] | _ \<Rightarrow> toString digits v)"
| "joinElements digits (v # w # rest) =
     (case v of Undefined \<Rightarrow> [] | Null \<Rightarrow> [] | _ \<Rightarrow> toString digits v)
     @ '','' @ joinElements digits (w # rest)"

subsection \<open>Strings and other values as numbers\<close>

text \<open>
  \<^verbatim>\<open>StringToNumber\<close>, which \<^verbatim>\<open>Math.round\<close> applies to a string argument. White space is
  trimmed at both ends. The empty string is 0; a run of at most 15 decimal digits is that
  integer; a string whose first character cannot begin a numeric literal (it is not a
  digit, a sign, a point or the \<^verbatim>\<open>I\<close> of \<^verbatim>\<open>Infinity\<close>) is \<^verbatim>\<open>NaN\<close>. For every other string the
  result is the literal rounded to a double, or \<^verbatim>\<open>NaN\<close> when the string is no literal
  after all: it is the parameter \<open>strNum\<close>, about which nothing is assumed.
\<close>

definition trim :: "string \<Rightarrow> string" where
  "trim s = rev (dropWhile isWhiteSpace (rev (dropWhile isWhiteSpace s)))"

definition StringToNumber :: "(string \<Rightarrow> number) \<Rightarrow> string \<Rightarrow> number" where
  "StringToNumber strNum s =
     (case trim s of
        [] \<Rightarrow> Fin 0
      | c # rest \<Rightarrow>
          if list_all (isRadixDigit 10) (c # rest) \<and> length (c # rest) \<le> 15
          then Fin (of_nat (mathInt 10 (c # rest)))
          else if c \<in> set ''0123456789+-.I'' then strNum s
          else NaN)"

text \<open>
  \<^verbatim>\<open>ToNumber\<close>. An array is converted through its string; a plain object's string is
  \<^verbatim>\<open>"[object Object]"\<close>, which is no number.
\<close>

fun ToNumber :: "(rat \<Rightarrow> string) \<Rightarrow> (string \<Rightarrow> number) \<Rightarrow> jsvalue \<Rightarrow> number" where
  "ToNumber digits strNum Undefined = NaN"
| "ToNumber digits strNum Null = Fin 0"
| "ToNumber digits strNum (Boolean b) = Fin (if b then 1 else 0)"
| "ToNumber digits strNum (Number n) = n"
| "ToNumber digits strNum (String s) = StringToNumber strNum s"
| "ToNumber digits strNum (Array xs) = StringToNumber strNum (toString digits (Array xs))"
| "ToNumber digits strNum Object = NaN"

subsection \<open>The provider's response\<close>

text \<open>
  The parsed body is the provider's documented document: an optional \<^verbatim>\<open>error\<close> object
  and an optional \<^verbatim>\<open>current\<close> object (\<open>None\<close>: the key is missing or \<^verbatim>\<open>null\<close>, which
  \<^verbatim>\<open>if (data.error)\<close> and \<^verbatim>\<open>if (data.current)\<close> read as false).
\<close>

record api_error =
  info :: "string option"

record current =
  temperature :: jsvalue
  weather_descriptions :: "string list option"
  precip :: jsvalue
  wind_speed :: jsvalue
  uv_index :: jsvalue

record payload =
  error :: "api_error option"
  current :: "current option"

text \<open>What the function can throw: the value of a rejected promise or a \<^verbatim>\<open>new Error\<close>.\<close>

datatype js_error = Error string | TypeError string | SyntaxError string

text \<open>
  \<^verbatim>\<open>response.json()\<close> rejects with a \<^verbatim>\<open>SyntaxError\<close> (\<open>Inl\<close>) or resolves to the parsed
  body; \<^verbatim>\<open>fetch\<close> rejects with a \<^verbatim>\<open>TypeError\<close> on a network failure or resolves to a
  response.
\<close>

record response =
  ok :: bool
  status :: int
  json :: "js_error + payload"

datatype fetched = Rejected js_error | Resolved response

text \<open>The response that carries the parsed body \<open>data\<close> with a success status.\<close>

definition delivered :: "int \<Rightarrow> payload \<Rightarrow> fetched" where
  "delivered s data = Resolved \<lparr>ok = True, status = s, json = Inr data\<rparr>"

subsection \<open>The weather object\<close>

text \<open>
  The object \<^verbatim>\<open>getWeatherData\<close> returns and the three engine functions read. Its field
  \<^verbatim>\<open>temperature\<close> has the name of the provider's; the provider's is written
  \<open>current.temperature\<close>.
\<close>

record weather =
  temperature :: string
  condition :: string
  precipitation :: string
  windSpeed :: string
  uvIndex :: string

section \<open>The engine: risk level, packing list, time slots\<close>

subsection \<open>calculateRiskLevel\<close>

definition calculateRiskLevel :: "weather \<Rightarrow> string" where
  "calculateRiskLevel w =
     (let riskScore = (0::int);
          temp = parseInt (temperature w);
          riskScore = (if js_gt temp 35 \<or> js_lt temp 5 then riskScore + 2
                       else if js_gt temp 30 \<or> js_lt temp 10 then riskScore + 1
                       else riskScore);
          precip = parseInt (precipitation w);
          riskScore = (if js_gt precip 70 then riskScore + 2
                       else if js_gt precip 30 then riskScore + 1
                       else riskScore);
          wind = parseInt (windSpeed w);
          riskScore = (if js_gt wind 25 then riskScore + 2
                       else if js_gt wind 15 then riskScore + 1
                       else riskScore)
      in if riskScore \<ge> 3 then ''high''
         else if riskScore \<ge> 1 then ''medium''
         else ''low'')"

text \<open>
  The three blocks of \<^verbatim>\<open>calculateRiskLevel\<close> each add 0, 1 or 2 to \<^verbatim>\<open>riskScore\<close>; these are
  the three increments, as functions of the parsed field.
\<close>

definition temperatureRisk :: "int option \<Rightarrow> int" where
  "temperatureRisk temp =
     (if js_gt temp 35 \<or> js_lt temp 5 then 2
      else if js_gt temp 30 \<or> js_lt temp 10 then 1
      else 0)"

definition precipitationRisk :: "int option \<Rightarrow> int" where
  "precipitationRisk rain =
     (if js_gt rain 70 then 2 else if js_gt rain 30 then 1 else 0)"

definition windRisk :: "int option \<Rightarrow> int" where
  "windRisk wind = (if js_gt wind 25 then 2 else if js_gt wind 15 then 1 else 0)"

definition riskScoreOf :: "weather \<Rightarrow> int" where
  "riskScoreOf w =
     temperatureRisk (parseInt (temperature w))
     + precipitationRisk (parseInt (precipitation w))
     + windRisk (parseInt (windSpeed w))"

text \<open>
  The scoring rules in the words of the specification (section 4.2), over integer
  readings.
\<close>

definition spec_temperature_score :: "int \<Rightarrow> int" where
  "spec_temperature_score t =
     (if t < 5 \<or> t > 35 then 2 else if t < 10 \<or> t > 30 then 1 else 0)"

definition spec_precipitation_score :: "int \<Rightarrow> int" where
  "spec_precipitation_score p = (if p > 70 then 2 else if p > 30 then 1 else 0)"

definition spec_wind_score :: "int \<Rightarrow> int" where
  "spec_wind_score v = (if v > 25 then 2 else if v > 15 then 1 else 0)"

definition spec_score :: "int \<Rightarrow> int \<Rightarrow> int \<Rightarrow> int" where
  "spec_score t p v =
     spec_temperature_score t + spec_precipitation_score p + spec_wind_score v"

subsection \<open>generatePackingList\<close>

text \<open>\<^verbatim>\<open>items.push(a, b)\<close> appends \<open>[a, b]\<close> to the array.\<close>

definition generatePackingList :: "weather \<Rightarrow> string list" where
  "generatePackingList w =
     (let items = [];
          precip = parseInt (precipitation w);
          temp = parseInt (temperature w);
          uv = parseInt (uvIndex w);
          items = items @ [''Water bottle''];
          items = (if js_gt precip 20 then items @ [''Umbrella'', ''Waterproof jacket'']
                   else items);
          items = (if js_lt temp 15 then items @ [''Warm jacket'', ''Blanket''] else items);
          items = (if js_gt temp 25 then items @ [''Hat'', ''Light clothing''] else items);
          items = (if js_gt uv 5 then items @ [''Sunscreen'', ''Sunglasses''] else items);
          items = (if js_gt (parseInt (windSpeed w)) 15 then items @ [''Windbreaker'']
                   else items)
      in items)"

text \<open>The item strings of the rules, in the order of the rules.\<close>

definition packingItems :: "string list" where
  "packingItems =
     [''Water bottle'', ''Umbrella'', ''Waterproof jacket'', ''Warm jacket'', ''Blanket'',
      ''Hat'', ''Light clothing'', ''Sunscreen'', ''Sunglasses'', ''Windbreaker'']"

text \<open>
  The rules in the words of the specification (section 4.3), over a Reading whose fields
  are numbers: temperature, precipitation, wind speed, UV index.
\<close>

definition spec_generatePackingList :: "rat \<Rightarrow> rat \<Rightarrow> rat \<Rightarrow> rat \<Rightarrow> string list" where
  "spec_generatePackingList temperatureC precipitationPct windSpeedKmh uv =
     [''Water bottle'']
     @ (if precipitationPct > 20 then [''Umbrella'', ''Waterproof jacket''] else [])
     @ (if temperatureC < 15 then [''Warm jacket'', ''Blanket''] else [])
     @ (if temperatureC > 25 then [''Hat'', ''Light clothing''] else [])
     @ (if uv > 5 then [''Sunscreen'', ''Sunglasses''] else [])
     @ (if windSpeedKmh > 15 then [''Windbreaker''] else [])"

subsection \<open>generateTimeSlots\<close>

record timeSlot =
  time :: string
  risk :: string

text \<open>
  \<^verbatim>\<open>xs.slice(start, end)\<close> for indices \<open>0 \<le> start\<close>, \<open>0 \<le> end\<close>: the elements from \<open>start\<close>
  up to, not including, \<open>end\<close>, as far as the array goes.
\<close>

definition slice :: "nat \<Rightarrow> nat \<Rightarrow> 'a list \<Rightarrow> 'a list" where
  "slice start end' xs = take (end' - start) (drop start xs)"

text \<open>The array literal \<^verbatim>\<open>slots\<close> of \<^verbatim>\<open>generateTimeSlots\<close>, for a given \<^verbatim>\<open>baseRisk\<close>.\<close>

definition slots :: "string \<Rightarrow> timeSlot list" where
  "slots baseRisk =
     [\<lparr>time = ''10:00 AM'', risk = ''low''\<rparr>,
      \<lparr>time = ''12:00 PM'', risk = baseRisk\<rparr>,
      \<lparr>time = ''2:00 PM'', risk = baseRisk\<rparr>,
      \<lparr>time = ''4:00 PM'', risk = (if baseRisk = ''low'' then ''medium'' else ''high'')\<rparr>,
      \<lparr>time = ''6:00 PM'', risk = ''low''\<rparr>]"

definition generateTimeSlots :: "weather \<Rightarrow> timeSlot list" where
  "generateTimeSlots w =
     (let baseRisk = calculateRiskLevel w
      in slice 0 3 (slots baseRisk))"

section \<open>The weather normalizer: getWeatherData\<close>

subsection \<open>The page: console and toasts\<close>

text \<open>
  The effects of \<^verbatim>\<open>getWeatherData\<close> are console lines and toasts. The state is the list of
  console lines written (level and label; the logged object is left out) and the list of
  toasts shown (message and type), oldest first. A toast's dismissal after its timeout
  is not modelled.
\<close>

record page =
  console :: "(string \<times> string) list"
  toasts :: "(string \<times> string) list"

definition console_error :: "string \<Rightarrow> page \<Rightarrow> page" where
  "console_error label pg = pg\<lparr>console := console pg @ [(''error'', label)]\<rparr>"

definition console_warn :: "string \<Rightarrow> page \<Rightarrow> page" where
  "console_warn label pg = pg\<lparr>console := console pg @ [(''warn'', label)]\<rparr>"

definition showToast :: "string \<Rightarrow> string \<Rightarrow> page \<Rightarrow> page" where
  "showToast message type pg = pg\<lparr>toasts := toasts pg @ [(message, type)]\<rparr>"

definition showErrorMessage :: "string \<Rightarrow> page \<Rightarrow> page" where
  "showErrorMessage message pg = showToast message ''error'' pg"

subsection \<open>getUVDescription and getWeatherData\<close>

definition getUVDescription :: "number \<Rightarrow> string" where
  "getUVDescription uv =
     (if number_le uv 2 then ''Low''
      else if number_le uv 5 then ''Moderate''
      else if number_le uv 7 then ''High''
      else if number_le uv 10 then ''Very High''
      else ''Extreme'')"

text \<open>
  The constant \<^verbatim>\<open>uvIndex\<close> of \<^verbatim>\<open>getWeatherData\<close> (lines 206 to 209), as a function of
  \<^verbatim>\<open>data.current.uv_index\<close>:
  \<^verbatim>\<open>Math.min(Math.max(Math.round(data.current.uv_index || 5), 1), 11)\<close>.
\<close>

definition uvIndexOf :: "(rat \<Rightarrow> string) \<Rightarrow> (string \<Rightarrow> number) \<Rightarrow> jsvalue \<Rightarrow> number" where
  "uvIndexOf digits strNum uv_index_raw =
     Math_min
       (Math_max
          (Math_round (ToNumber digits strNum (js_or uv_index_raw (Number (Fin 5)))))
          (Fin 1))
       (Fin 11)"

text \<open>\<^verbatim>\<open>data.current.weather_descriptions?.[0]\<close>: \<open>None\<close> is \<^verbatim>\<open>undefined\<close>.\<close>

fun firstDescription :: "string list option \<Rightarrow> string option" where
  "firstDescription None = None"
| "firstDescription (Some []) = None"
| "firstDescription (Some (d # ds)) = Some d"

text \<open>
  \<^verbatim>\<open>getWeatherData(location, date)\<close>. The arguments only build the request (\<^verbatim>\<open>date\<close> is
  not used at all); what the function does is decided by what \<^verbatim>\<open>fetch\<close> delivers, which
  is the argument \<open>fetch_result\<close> here. The function is given in two parts: the body of
  the \<^verbatim>\<open>try\<close> block, with the thrown error or the returned weather object and the page
  after it, and the whole function with its \<^verbatim>\<open>catch\<close> block.
\<close>

definition getWeatherData_try ::
    "(rat \<Rightarrow> string) \<Rightarrow> (string \<Rightarrow> number) \<Rightarrow> fetched \<Rightarrow> page
      \<Rightarrow> (js_error + weather) \<times> page" where
  "getWeatherData_try digits strNum fetch_result pg =
     (case fetch_result of
        Rejected e \<Rightarrow> (Inl e, pg)
      | Resolved response \<Rightarrow>
          if \<not> ok response
          then (Inl (Error (''API responded with status '' @ showInt (status response))), pg)
          else
            (case json response of
               Inl e \<Rightarrow> (Inl e, pg)
             | Inr data \<Rightarrow>
                 (case error data of
                    Some err \<Rightarrow>
                      (let pg = console_error ''WeatherStack API error:'' pg;
                           pg = showErrorMessage
                                  (''Weather API error: '' @ or_string (info err) ''Unknown error'')
                                  pg
                       in (Inl (Error (or_string (info err) ''Unknown API error'')), pg))
                  | None \<Rightarrow>
                      (case current data of
                         Some cur \<Rightarrow>
                           (let uv = uvIndexOf digits strNum (uv_index cur)
                            in (Inr \<lparr>weather.temperature =
                                       toString digits (current.temperature cur)
                                       @ [CHR 0xB0, CHR ''C''],
                                     condition =
                                       or_string (firstDescription (weather_descriptions cur))
                                         ''Unknown'',
                                     precipitation =
                                       toString digits (js_or (precip cur) (Number (Fin 0)))
                                       @ ''%'',
                                     windSpeed =
                                       toString digits (js_or (wind_speed cur) (Number (Fin 0)))
                                       @ '' km/h'',
                                     uvIndex =
                                       numberToString digits uv @ '' ('' @ getUVDescription uv
                                       @ '')''\<rparr>,
                                pg))
                       | None \<Rightarrow>
                           (let pg = console_warn ''Unexpected API response format:'' pg
                            in (Inl (Error ''Invalid response format from weather API''),
                                pg))))))"

text \<open>The \<^verbatim>\<open>catch\<close> block logs, shows the generic toast and throws the error again.\<close>

definition getWeatherData ::
    "(rat \<Rightarrow> string) \<Rightarrow> (string \<Rightarrow> number) \<Rightarrow> fetched \<Rightarrow> page
      \<Rightarrow> (js_error + weather) \<times> page" where
  "getWeatherData digits strNum fetch_result pg =
     (case getWeatherData_try digits strNum fetch_result pg of
        (Inl err, pg) \<Rightarrow>
          (let pg = console_error ''Weather API error:'' pg;
               pg = showErrorMessage
                      ''Failed to fetch weather data. Please check your API key and connection.''
                      pg
           in (Inl err, pg))
      | (Inr weather, pg) \<Rightarrow> (Inr weather, pg))"

subsection \<open>The UV index in the words of the specification\<close>

text \<open>
  Section 4.1 of the specification: \<^verbatim>\<open>clamp(round(rawUv ?? 5), 1, 11)\<close>. The operator
  \<^verbatim>\<open>??\<close> replaces only \<^verbatim>\<open>undefined\<close> and \<^verbatim>\<open>null\<close>.
\<close>

fun nullish_or :: "jsvalue \<Rightarrow> jsvalue \<Rightarrow> jsvalue" where
  "nullish_or Undefined d = d"
| "nullish_or Null d = d"
| "nullish_or v d = v"

definition spec_clamp :: "number \<Rightarrow> number \<Rightarrow> number \<Rightarrow> number" where
  "spec_clamp x lo hi = Math_min (Math_max x lo) hi"

definition spec_uvIndex :: "(rat \<Rightarrow> string) \<Rightarrow> (string \<Rightarrow> number) \<Rightarrow> jsvalue \<Rightarrow> number" where
  "spec_uvIndex digits strNum rawUv =
     spec_clamp
       (Math_round (ToNumber digits strNum (nullish_or rawUv (Number (Fin 5)))))
       (Fin 1) (Fin 11)"

section \<open>Sample inputs\<close>

text \<open>Weather objects as \<^verbatim>\<open>getWeatherData\<close> formats them.\<close>

definition reading70 :: weather where
  "reading70 =
     \<lparr>temperature = ''20'' @ [CHR 0xB0] @ ''C'', condition = ''Light rain'',
      precipitation = ''70%'', windSpeed = ''0 km/h'', uvIndex = ''3 (Moderate)''\<rparr>"

definition readingCool :: weather where
  "readingCool =
     \<lparr>temperature = ''10'' @ [CHR 0xB0] @ ''C'', condition = ''Overcast'',
      precipitation = ''25%'', windSpeed = ''5 km/h'', uvIndex = ''3 (Moderate)''\<rparr>"

definition readingStorm :: weather where
  "readingStorm =
     \<lparr>temperature = ''38'' @ [CHR 0xB0] @ ''C'', condition = ''Thunderstorm'',
      precipitation = ''80%'', windSpeed = ''30 km/h'', uvIndex = ''9 (Very High)''\<rparr>"

definition readingFrac :: weather where
  "readingFrac =
     \<lparr>temperature = ''25.5'' @ [CHR 0xB0] @ ''C'', condition = ''Cloudy'',
      precipitation = ''20.5%'', windSpeed = ''15.5 km/h'', uvIndex = ''3 (Moderate)''\<rparr>"

definition readingNaN :: weather where
  "readingNaN =
     \<lparr>temperature = ''12'' @ [CHR 0xB0] @ ''C'', condition = ''Clear'',
      precipitation = ''0%'', windSpeed = ''9 km/h'', uvIndex = ''NaN (Extreme)''\<rparr>"

definition readingBare :: weather where
  "readingBare =
     \<lparr>temperature = ''undefined'' @ [CHR 0xB0] @ ''C'', condition = ''Unknown'',
      precipitation = ''0%'', windSpeed = ''0 km/h'', uvIndex = ''3 (Moderate)''\<rparr>"

text \<open>
  Provider payloads: a night reading with UV index 0, the same reading with the text
  \<^verbatim>\<open>"abc"\<close> for a UV index, a reading with fractional values, a \<^verbatim>\<open>current\<close> object with
  nearly every field missing, an error object next to a \<^verbatim>\<open>current\<close> object, and an empty
  document.
\<close>

definition currentNight :: current where
  "currentNight =
     \<lparr>current.temperature = Number (Fin 12), weather_descriptions = Some [''Clear''],
      precip = Number (Fin 0), wind_speed = Number (Fin 9), uv_index = Number (Fin 0)\<rparr>"

definition currentText :: current where
  "currentText =
     \<lparr>current.temperature = Number (Fin 12), weather_descriptions = Some [''Clear''],
      precip = Number (Fin 0), wind_speed = Number (Fin 9), uv_index = String ''abc''\<rparr>"

definition currentFrac :: current where
  "currentFrac =
     \<lparr>current.temperature = Number (Fin (51 / 2)), weather_descriptions = Some [''Cloudy''],
      precip = Number (Fin (41 / 2)), wind_speed = Number (Fin (31 / 2)),
      uv_index = Number (Fin 3)\<rparr>"

definition currentBare :: current where
  "currentBare =
     \<lparr>current.temperature = Undefined, weather_descriptions = None,
      precip = Undefined, wind_speed = Null, uv_index = Number (Fin (5 / 2))\<rparr>"

definition payloadNight :: payload where
  "payloadNight = \<lparr>error = None, current = Some currentNight\<rparr>"

definition payloadText :: payload where
  "payloadText = \<lparr>error = None, current = Some currentText\<rparr>"

definition payloadFrac :: payload where
  "payloadFrac = \<lparr>error = None, current = Some currentFrac\<rparr>"

definition payloadBare :: payload where
  "payloadBare = \<lparr>error = None, current = Some currentBare\<rparr>"

definition payloadError :: payload where
  "payloadError =
     \<lparr>error = Some \<lparr>info = Some ''Invalid access key''\<rparr>, current = Some currentNight\<rparr>"

definition payloadEmpty :: payload where
  "payloadEmpty = \<lparr>error = None, current = None\<rparr>"

text \<open>
  A page with nothing on it. For the two parameters: a digit function and a string value
  that no run calls, and the digits JavaScript prints for the three fractions of the
  fractional reading (each is a double, printed exactly).
\<close>

definition emptyPage :: page where
  "emptyPage = \<lparr>console = [], toasts = []\<rparr>"

definition anyDigits :: "rat \<Rightarrow> string" where
  "anyDigits x = ''?''"

definition anyStrNum :: "string \<Rightarrow> number" where
  "anyStrNum s = NaN"

definition fracDigits :: "rat \<Rightarrow> string" where
  "fracDigits x =
     (if x = 51 / 2 then ''25.5''
      else if x = 41 / 2 then ''20.5''
      else if x = 31 / 2 then ''15.5''
      else ''?'')"

section \<open>Theorems\<close>

subsection \<open>Evaluation of the definitions\<close>

lemmas parse_defs = parseInt_def isWhiteSpace_def isRadixDigit_def digitValue_def mathInt_def

lemmas show_defs = showInt_def showNat.simps

lemmas page_defs = console_error_def console_warn_def showToast_def showErrorMessage_def

subsection \<open>The risk classifier\<close>

lemma calculateRiskLevel_riskScore:
  "calculateRiskLevel w =
     (if riskScoreOf w \<ge> 3 then ''high''
      else if riskScoreOf w \<ge> 1 then ''medium''
      else ''low'')"
  by (simp add: calculateRiskLevel_def riskScoreOf_def temperatureRisk_def
      precipitationRisk_def windRisk_def Let_def)

lemma temperatureRisk_range: "0 \<le> temperatureRisk x \<and> temperatureRisk x \<le> 2"
  by (simp add: temperatureRisk_def)

lemma precipitationRisk_range: "0 \<le> precipitationRisk x \<and> precipitationRisk x \<le> 2"
  by (simp add: precipitationRisk_def)

lemma windRisk_range: "0 \<le> windRisk x \<and> windRisk x \<le> 2"
  by (simp add: windRisk_def)

lemma temperatureRisk_Some: "temperatureRisk (Some t) = spec_temperature_score t"
  by (auto simp add: temperatureRisk_def spec_temperature_score_def js_gt_def js_lt_def)

lemma precipitationRisk_Some: "precipitationRisk (Some p) = spec_precipitation_score p"
  by (simp add: precipitationRisk_def spec_precipitation_score_def js_gt_def)

lemma windRisk_Some: "windRisk (Some v) = spec_wind_score v"
  by (simp add: windRisk_def spec_wind_score_def js_gt_def)

lemma riskScoreOf_range: "0 \<le> riskScoreOf w \<and> riskScoreOf w \<le> 6"
  using temperatureRisk_range [of "parseInt (temperature w)"]
    precipitationRisk_range [of "parseInt (precipitation w)"]
    windRisk_range [of "parseInt (windSpeed w)"]
  by (simp add: riskScoreOf_def)

lemma readingStorm_parses:
  "parseInt (temperature readingStorm) = Some 38"
  "parseInt (precipitation readingStorm) = Some 80"
  "parseInt (windSpeed readingStorm) = Some 30"
  "parseInt (uvIndex readingStorm) = Some 9"
  by (simp_all add: readingStorm_def parse_defs)

text \<open>
  C1. For a weather object whose temperature, precipitation and wind fields parse to the
  integers \<open>t\<close>, \<open>p\<close> and \<open>v\<close>, \<^verbatim>\<open>calculateRiskLevel\<close> returns \<^verbatim>\<open>"high"\<close> exactly when the
  score of the specification is at least 3, \<^verbatim>\<open>"medium"\<close> exactly when it is 1 or 2, and
  \<^verbatim>\<open>"low"\<close> exactly when it is 0. The score is the sum of the three band scores of
  section 4.2 (\<open>spec_score\<close>), the more severe band first.
\<close>

theorem calculateRiskLevel_thresholds:
  assumes "parseInt (temperature w) = Some t"
    and "parseInt (precipitation w) = Some p"
    and "parseInt (windSpeed w) = Some v"
  shows "(calculateRiskLevel w = ''high'') = (spec_score t p v \<ge> 3)
       \<and> (calculateRiskLevel w = ''medium'') = (spec_score t p v = 1 \<or> spec_score t p v = 2)
       \<and> (calculateRiskLevel w = ''low'') = (spec_score t p v = 0)"
proof -
  have s: "riskScoreOf w = spec_score t p v"
    using assms
    by (simp add: riskScoreOf_def spec_score_def temperatureRisk_Some
        precipitationRisk_Some windRisk_Some)
  have r: "0 \<le> spec_score t p v"
    using riskScoreOf_range [of w] s by simp
  show ?thesis
    using r by (auto simp add: calculateRiskLevel_riskScore s)
qed

text \<open>
  The witness is the boundary the claim names: precipitation exactly 70 scores 1, not 2,
  so with a mild temperature and no wind the level is \<^verbatim>\<open>"medium"\<close>.
\<close>

theorem calculateRiskLevel_thresholds_witness:
  "parseInt (temperature reading70) = Some 20
   \<and> parseInt (precipitation reading70) = Some 70
   \<and> parseInt (windSpeed reading70) = Some 0
   \<and> spec_score 20 70 0 = 1
   \<and> calculateRiskLevel reading70 = ''medium''"
proof -
  have t: "parseInt (temperature reading70) = Some 20"
    by (simp add: reading70_def parse_defs)
  have p: "parseInt (precipitation reading70) = Some 70"
    by (simp add: reading70_def parse_defs)
  have v: "parseInt (windSpeed reading70) = Some 0"
    by (simp add: reading70_def parse_defs)
  have s: "spec_score 20 70 0 = 1"
    by (simp add: spec_score_def spec_temperature_score_def spec_precipitation_score_def
        spec_wind_score_def)
  from calculateRiskLevel_thresholds [OF t p v] s
  have "calculateRiskLevel reading70 = ''medium''" by simp
  with t p v s show ?thesis by simp
qed

text \<open>
  C9. For every weather object, \<^verbatim>\<open>calculateRiskLevel\<close> returns \<^verbatim>\<open>"high"\<close> only when at
  least two of the three factors (temperature, precipitation, wind) add a nonzero amount
  to the score: each factor adds at most 2, so one factor alone stays below the
  threshold 3 and yields at most \<^verbatim>\<open>"medium"\<close>. This holds for fields that do not parse
  (\<^verbatim>\<open>NaN\<close>) as well.
\<close>

theorem high_needs_two_factors:
  assumes "calculateRiskLevel w = ''high''"
  shows "temperatureRisk (parseInt (temperature w)) \<le> 2
       \<and> precipitationRisk (parseInt (precipitation w)) \<le> 2
       \<and> windRisk (parseInt (windSpeed w)) \<le> 2
       \<and> 2 \<le> length (filter (\<lambda>x. x \<noteq> 0)
                 [temperatureRisk (parseInt (temperature w)),
                  precipitationRisk (parseInt (precipitation w)),
                  windRisk (parseInt (windSpeed w))])"
proof -
  have s: "3 \<le> riskScoreOf w"
    using assms by (simp add: calculateRiskLevel_riskScore split: if_splits)
  show ?thesis
    using s temperatureRisk_range [of "parseInt (temperature w)"]
      precipitationRisk_range [of "parseInt (precipitation w)"]
      windRisk_range [of "parseInt (windSpeed w)"]
    by (auto simp add: riskScoreOf_def)
qed

theorem high_needs_two_factors_witness:
  "calculateRiskLevel readingStorm = ''high''
   \<and> 2 \<le> length (filter (\<lambda>x. x \<noteq> 0)
                 [temperatureRisk (parseInt (temperature readingStorm)),
                  precipitationRisk (parseInt (precipitation readingStorm)),
                  windRisk (parseInt (windSpeed readingStorm))])"
proof -
  have h: "calculateRiskLevel readingStorm = ''high''"
    by (simp add: calculateRiskLevel_def readingStorm_parses js_gt_def js_lt_def)
  from high_needs_two_factors [OF h] h show ?thesis by simp
qed

subsection \<open>The packing list\<close>

lemma generatePackingList_append:
  "generatePackingList w =
     [''Water bottle'']
     @ (if js_gt (parseInt (precipitation w)) 20 then [''Umbrella'', ''Waterproof jacket'']
        else [])
     @ (if js_lt (parseInt (temperature w)) 15 then [''Warm jacket'', ''Blanket''] else [])
     @ (if js_gt (parseInt (temperature w)) 25 then [''Hat'', ''Light clothing''] else [])
     @ (if js_gt (parseInt (uvIndex w)) 5 then [''Sunscreen'', ''Sunglasses''] else [])
     @ (if js_gt (parseInt (windSpeed w)) 15 then [''Windbreaker''] else [])"
  by (simp add: generatePackingList_def Let_def)

lemma cold_hot_exclusive: "\<not> (js_lt t 15 \<and> js_gt t 25)"
  by (cases t) (simp_all add: js_lt_def js_gt_def)

lemma generatePackingList_distinct: "distinct (generatePackingList w)"
  by (auto simp add: generatePackingList_append)

text \<open>
  C5, as the claim states it: the rules compare the Reading's values with the thresholds,
  so precipitation 20.5 brings the umbrella, temperature 25.5 the hat and wind 15.5 the
  windbreaker. The code compares what \<^verbatim>\<open>parseInt\<close> reads from the display strings, which
  is 20, 25 and 15: for the provider's values 25.5, 20.5 and 15.5 the weather object is
  \<open>readingFrac\<close> and the list is the water bottle alone.
\<close>

theorem generatePackingList_fraction_counterexample:
  "getWeatherData fracDigits anyStrNum (delivered 200 payloadFrac) emptyPage
     = (Inr readingFrac, emptyPage)
   \<and> generatePackingList readingFrac = [''Water bottle'']
   \<and> spec_generatePackingList (51 / 2) (41 / 2) (31 / 2) 3 =
       [''Water bottle'', ''Umbrella'', ''Waterproof jacket'', ''Hat'', ''Light clothing'',
        ''Windbreaker'']
   \<and> generatePackingList readingFrac \<noteq> spec_generatePackingList (51 / 2) (41 / 2) (31 / 2) 3"
proof -
  have u: "uvIndexOf fracDigits anyStrNum (Number (Fin 3)) = Fin 3"
    by (simp add: uvIndexOf_def js_or_def floor_eq_iff)
  have fl: "\<lfloor>(51::rat) / 2\<rfloor> = 25" "\<lfloor>(41::rat) / 2\<rfloor> = 20" "\<lfloor>(31::rat) / 2\<rfloor> = 15"
    by (simp_all add: floor_eq_iff)
  have n: "numberToString fracDigits (Fin (51 / 2)) = ''25.5''"
    "numberToString fracDigits (Fin (41 / 2)) = ''20.5''"
    "numberToString fracDigits (Fin (31 / 2)) = ''15.5''"
    by (simp_all add: fl fracDigits_def)
  have n3: "numberToString fracDigits (Fin 3) = ''3''"
    by (simp add: show_defs)
  have a: "getWeatherData fracDigits anyStrNum (delivered 200 payloadFrac) emptyPage
     = (Inr readingFrac, emptyPage)"
    by (simp add: getWeatherData_def getWeatherData_try_def delivered_def payloadFrac_def
        currentFrac_def readingFrac_def u getUVDescription_def js_or_def n n3
        del: numberToString.simps)
  have p: "parseInt (temperature readingFrac) = Some 25"
    "parseInt (precipitation readingFrac) = Some 20"
    "parseInt (windSpeed readingFrac) = Some 15"
    "parseInt (uvIndex readingFrac) = Some 3"
    by (simp_all add: readingFrac_def parse_defs)
  have b: "generatePackingList readingFrac = [''Water bottle'']"
    by (simp add: generatePackingList_append p js_gt_def js_lt_def)
  have c: "spec_generatePackingList (51 / 2) (41 / 2) (31 / 2) 3 =
       [''Water bottle'', ''Umbrella'', ''Waterproof jacket'', ''Hat'', ''Light clothing'',
        ''Windbreaker'']"
    by (simp add: spec_generatePackingList_def)
  from a b c show ?thesis by simp
qed

text \<open>
  C5, amended. For every weather object, \<^verbatim>\<open>generatePackingList\<close> contains
  \<^verbatim>\<open>"Water bottle"\<close> and is the concatenation, in the order of the rules, of what each
  rule appends, where each rule compares the integer that \<^verbatim>\<open>parseInt\<close> reads from the
  field's display string, and a field from which it reads none passes no rule: the water
  bottle; umbrella and waterproof jacket if precipitation \<open>> 20\<close>; warm jacket and blanket
  if temperature \<open>< 15\<close>; hat and light clothing if temperature \<open>> 25\<close>; sunscreen and
  sunglasses if the UV index \<open>> 5\<close>; windbreaker if wind \<open>> 15\<close>. Nothing is sorted or
  removed. For a weather object that reads temperature 10, precipitation 25, wind 5 and UV
  index 3 the list is exactly water bottle, umbrella, waterproof jacket, warm jacket,
  blanket.
\<close>

theorem generatePackingList_rule_order:
  "generatePackingList w =
     [''Water bottle'']
     @ (if js_gt (parseInt (precipitation w)) 20 then [''Umbrella'', ''Waterproof jacket'']
        else [])
     @ (if js_lt (parseInt (temperature w)) 15 then [''Warm jacket'', ''Blanket''] else [])
     @ (if js_gt (parseInt (temperature w)) 25 then [''Hat'', ''Light clothing''] else [])
     @ (if js_gt (parseInt (uvIndex w)) 5 then [''Sunscreen'', ''Sunglasses''] else [])
     @ (if js_gt (parseInt (windSpeed w)) 15 then [''Windbreaker''] else [])
   \<and> ''Water bottle'' \<in> set (generatePackingList w)
   \<and> (parseInt (temperature w) = Some 10 \<and> parseInt (precipitation w) = Some 25
        \<and> parseInt (windSpeed w) = Some 5 \<and> parseInt (uvIndex w) = Some 3
      \<longrightarrow> generatePackingList w =
            [''Water bottle'', ''Umbrella'', ''Waterproof jacket'', ''Warm jacket'',
             ''Blanket''])"
proof (intro conjI impI)
  show "generatePackingList w =
     [''Water bottle'']
     @ (if js_gt (parseInt (precipitation w)) 20 then [''Umbrella'', ''Waterproof jacket'']
        else [])
     @ (if js_lt (parseInt (temperature w)) 15 then [''Warm jacket'', ''Blanket''] else [])
     @ (if js_gt (parseInt (temperature w)) 25 then [''Hat'', ''Light clothing''] else [])
     @ (if js_gt (parseInt (uvIndex w)) 5 then [''Sunscreen'', ''Sunglasses''] else [])
     @ (if js_gt (parseInt (windSpeed w)) 15 then [''Windbreaker''] else [])"
    by (rule generatePackingList_append)
  show "''Water bottle'' \<in> set (generatePackingList w)"
    by (simp add: generatePackingList_append)
  assume "parseInt (temperature w) = Some 10 \<and> parseInt (precipitation w) = Some 25
        \<and> parseInt (windSpeed w) = Some 5 \<and> parseInt (uvIndex w) = Some 3"
  then show "generatePackingList w =
            [''Water bottle'', ''Umbrella'', ''Waterproof jacket'', ''Warm jacket'',
             ''Blanket'']"
    by (simp add: generatePackingList_append js_gt_def js_lt_def)
qed

theorem generatePackingList_rule_order_witness:
  "parseInt (temperature readingCool) = Some 10
   \<and> parseInt (precipitation readingCool) = Some 25
   \<and> parseInt (windSpeed readingCool) = Some 5
   \<and> parseInt (uvIndex readingCool) = Some 3
   \<and> generatePackingList readingCool =
       [''Water bottle'', ''Umbrella'', ''Waterproof jacket'', ''Warm jacket'', ''Blanket'']"
proof -
  have t: "parseInt (temperature readingCool) = Some 10"
    by (simp add: readingCool_def parse_defs)
  have p: "parseInt (precipitation readingCool) = Some 25"
    by (simp add: readingCool_def parse_defs)
  have v: "parseInt (windSpeed readingCool) = Some 5"
    by (simp add: readingCool_def parse_defs)
  have u: "parseInt (uvIndex readingCool) = Some 3"
    by (simp add: readingCool_def parse_defs)
  from generatePackingList_rule_order [of readingCool] t p v u
  have "generatePackingList readingCool =
       [''Water bottle'', ''Umbrella'', ''Waterproof jacket'', ''Warm jacket'', ''Blanket'']"
    by blast
  with t p v u show ?thesis by simp
qed

text \<open>
  C6, as the claim states it: some weather object gives a list with a duplicate entry.
  No weather object does.
\<close>

theorem generatePackingList_duplicate_counterexample:
  "\<not> (\<exists>w. \<not> distinct (generatePackingList w))"
  by (simp add: generatePackingList_distinct)

text \<open>
  C6, amended. For every weather object the list of \<^verbatim>\<open>generatePackingList\<close> has no
  duplicate entry. Each rule appends on its own and nothing removes duplicates, but the
  ten item strings of the rules are pairwise different and the list takes each of them at
  most once, in the order of the rules; removing duplicates would change nothing.
\<close>

theorem generatePackingList_no_duplicates:
  "distinct (generatePackingList w)
   \<and> remdups (generatePackingList w) = generatePackingList w
   \<and> generatePackingList w = filter (\<lambda>i. i \<in> set (generatePackingList w)) packingItems
   \<and> distinct packingItems
   \<and> length packingItems = 10"
proof (intro conjI)
  show "distinct (generatePackingList w)"
    by (rule generatePackingList_distinct)
  show "remdups (generatePackingList w) = generatePackingList w"
    by (simp add: generatePackingList_distinct)
  show "generatePackingList w = filter (\<lambda>i. i \<in> set (generatePackingList w)) packingItems"
    by (simp add: generatePackingList_append packingItems_def)
  show "distinct packingItems"
    by (simp add: packingItems_def)
  show "length packingItems = 10"
    by (simp add: packingItems_def)
qed

text \<open>
  C10. For every weather object the list of \<^verbatim>\<open>generatePackingList\<close> starts with
  \<^verbatim>\<open>"Water bottle"\<close> and has between 1 and 8 entries: the cold rule (temperature \<open>< 15\<close>)
  and the hot rule (temperature \<open>> 25\<close>) never both apply, so at most
  \<open>1 + 2 + 2 + 2 + 1 = 8\<close> entries are appended. The bound is reached (hot, wet, windy
  and sunny).
\<close>

theorem generatePackingList_length:
  "hd (generatePackingList w) = ''Water bottle''
   \<and> (\<exists>rest. generatePackingList w = ''Water bottle'' # rest)
   \<and> 1 \<le> length (generatePackingList w)
   \<and> length (generatePackingList w) \<le> 8
   \<and> \<not> (js_lt (parseInt (temperature w)) 15 \<and> js_gt (parseInt (temperature w)) 25)
   \<and> length (generatePackingList readingStorm) = 8"
  using cold_hot_exclusive [of "parseInt (temperature w)"]
  by (simp add: generatePackingList_append readingStorm_parses js_gt_def js_lt_def)

subsection \<open>The time slots\<close>

text \<open>
  C2, as the claim states it: the three entries are labelled \<^verbatim>\<open>10:00\<close>, \<^verbatim>\<open>12:00\<close> and
  \<^verbatim>\<open>14:00\<close>. The labels of the code are 12-hour clock strings.
\<close>

theorem generateTimeSlots_labels_counterexample:
  "map time (generateTimeSlots reading70) = [''10:00 AM'', ''12:00 PM'', ''2:00 PM'']
   \<and> map time (generateTimeSlots reading70) \<noteq> [''10:00'', ''12:00'', ''14:00'']"
  by (simp add: generateTimeSlots_def slots_def slice_def Let_def)

text \<open>
  C2, amended. For every weather object, \<^verbatim>\<open>generateTimeSlots\<close> returns exactly 3 entries,
  the first 3 of a candidate list of 5. Their \<^verbatim>\<open>time\<close> labels are \<^verbatim>\<open>"10:00 AM"\<close>,
  \<^verbatim>\<open>"12:00 PM"\<close> and \<^verbatim>\<open>"2:00 PM"\<close>, in that order, with risks \<^verbatim>\<open>"low"\<close>, the level of
  \<^verbatim>\<open>calculateRiskLevel\<close> and that level again. The two candidates left out are
  \<^verbatim>\<open>"4:00 PM"\<close>, with risk \<^verbatim>\<open>"medium"\<close> if the level is \<^verbatim>\<open>"low"\<close> and \<^verbatim>\<open>"high"\<close> otherwise,
  and \<^verbatim>\<open>"6:00 PM"\<close> with risk \<^verbatim>\<open>"low"\<close>.
\<close>

theorem generateTimeSlots_first_three:
  "length (slots (calculateRiskLevel w)) = 5
   \<and> generateTimeSlots w = take 3 (slots (calculateRiskLevel w))
   \<and> length (generateTimeSlots w) = 3
   \<and> generateTimeSlots w =
       [\<lparr>time = ''10:00 AM'', risk = ''low''\<rparr>,
        \<lparr>time = ''12:00 PM'', risk = calculateRiskLevel w\<rparr>,
        \<lparr>time = ''2:00 PM'', risk = calculateRiskLevel w\<rparr>]
   \<and> drop 3 (slots (calculateRiskLevel w)) =
       [\<lparr>time = ''4:00 PM'',
         risk = (if calculateRiskLevel w = ''low'' then ''medium'' else ''high'')\<rparr>,
        \<lparr>time = ''6:00 PM'', risk = ''low''\<rparr>]"
  by (simp add: generateTimeSlots_def slots_def slice_def Let_def)

subsection \<open>The UV index\<close>

lemma clamp_of_int:
  "Math_min (Math_max (Fin (of_int r)) (Fin 1)) (Fin 11) = Fin (of_int (min (max r 1) 11))"
  by (simp add: of_int_max of_int_min)

lemma uvIndexOf_Fin:
  "uvIndexOf digits strNum (Number (Fin x)) =
     (if x = 0 then Fin 5 else Fin (of_int (min (max \<lfloor>x + 1 / 2\<rfloor> 1) 11)))"
proof (cases "x = 0")
  case True
  then show ?thesis by (simp add: uvIndexOf_def js_or_def floor_eq_iff)
next
  case False
  then show ?thesis
    using clamp_of_int [of "\<lfloor>x + 1 / 2\<rfloor>"] by (simp add: uvIndexOf_def js_or_def)
qed

lemma uvIndexOf_other:
  "uvIndexOf digits strNum Undefined = Fin 5"
  "uvIndexOf digits strNum Null = Fin 5"
  "uvIndexOf digits strNum (Number NaN) = Fin 5"
  "uvIndexOf digits strNum (Number PosInf) = Fin 11"
  "uvIndexOf digits strNum (Number NegInf) = Fin 1"
  by (simp_all add: uvIndexOf_def js_or_def floor_eq_iff)

text \<open>
  On a missing value, \<^verbatim>\<open>null\<close> and every number the normalized UV index is an integer
  from 1 to 11.
\<close>

lemma uvIndexOf_number_range:
  assumes "raw = Undefined \<or> raw = Null \<or> raw = Number n"
  shows "\<exists>k. uvIndexOf digits strNum raw = Fin (of_int k) \<and> 1 \<le> k \<and> k \<le> 11"
proof -
  have five: "\<exists>k. Fin 5 = Fin (of_int k) \<and> 1 \<le> k \<and> k \<le> (11::int)"
    by (intro exI [of _ 5]) simp
  have one: "\<exists>k. Fin 1 = Fin (of_int k) \<and> 1 \<le> k \<and> k \<le> (11::int)"
    by (intro exI [of _ 1]) simp
  have eleven: "\<exists>k. Fin 11 = Fin (of_int k) \<and> 1 \<le> k \<and> k \<le> (11::int)"
    by (intro exI [of _ 11]) simp
  have fin: "\<exists>k. uvIndexOf digits strNum (Number (Fin x)) = Fin (of_int k) \<and> 1 \<le> k \<and> k \<le> 11"
    for x
  proof (cases "x = 0")
    case True
    then show ?thesis using five by (simp add: uvIndexOf_Fin)
  next
    case False
    then show ?thesis
      by (intro exI [of _ "min (max \<lfloor>x + 1 / 2\<rfloor> 1) 11"]) (simp add: uvIndexOf_Fin)
  qed
  from assms show ?thesis
  proof (elim disjE)
    assume "raw = Undefined"
    then show ?thesis using five by (simp add: uvIndexOf_other)
  next
    assume "raw = Null"
    then show ?thesis using five by (simp add: uvIndexOf_other)
  next
    assume r: "raw = Number n"
    show ?thesis
    proof (cases n)
      case (Fin x)
      with r fin [of x] show ?thesis by simp
    next
      case PosInf
      with r eleven show ?thesis by (simp add: uvIndexOf_other)
    next
      case NegInf
      with r one show ?thesis by (simp add: uvIndexOf_other)
    next
      case NaN
      with r five show ?thesis by (simp add: uvIndexOf_other)
    qed
  qed
qed

text \<open>
  The code's \<^verbatim>\<open>||\<close> and the specification's \<^verbatim>\<open>??\<close> give the same UV index on every truthy
  value; they part on the falsy values that are not missing.
\<close>

lemma uvIndexOf_truthy:
  "truthy raw \<Longrightarrow> uvIndexOf digits strNum raw = spec_uvIndex digits strNum raw"
  by (cases raw rule: truthy.cases)
    (simp_all add: uvIndexOf_def spec_uvIndex_def spec_clamp_def js_or_def)

subsection \<open>Runs of getWeatherData\<close>

lemma getWeatherData_provider_error:
  assumes "error data = Some err"
  shows "fst (getWeatherData digits strNum (delivered s data) pg)
           = Inl (Error (or_string (info err) ''Unknown API error''))"
    and "toasts (snd (getWeatherData digits strNum (delivered s data) pg))
           = toasts pg
             @ [(''Weather API error: '' @ or_string (info err) ''Unknown error'', ''error''),
                (''Failed to fetch weather data. Please check your API key and connection.'',
                 ''error'')]"
    and "console (snd (getWeatherData digits strNum (delivered s data) pg))
           = console pg
             @ [(''error'', ''WeatherStack API error:''), (''error'', ''Weather API error:'')]"
  using assms
  by (simp_all add: getWeatherData_def getWeatherData_try_def delivered_def page_defs)

lemma getWeatherData_no_current:
  assumes "error data = None" and "current data = None"
  shows "fst (getWeatherData digits strNum (delivered s data) pg)
           = Inl (Error ''Invalid response format from weather API'')"
    and "toasts (snd (getWeatherData digits strNum (delivered s data) pg))
           = toasts pg
             @ [(''Failed to fetch weather data. Please check your API key and connection.'',
                 ''error'')]"
    and "console (snd (getWeatherData digits strNum (delivered s data) pg))
           = console pg
             @ [(''warn'', ''Unexpected API response format:''),
                (''error'', ''Weather API error:'')]"
  using assms
  by (simp_all add: getWeatherData_def getWeatherData_try_def delivered_def page_defs)


lemma getWeatherData_success_pure:
  assumes "getWeatherData digits strNum f pg = (Inr r, pg')"
  shows "pg' = pg"
  using assms
  by (auto simp add: getWeatherData_def getWeatherData_try_def Let_def
      split: fetched.splits if_splits sum.splits option.splits prod.splits)

lemma getWeatherData_failure_toast:
  assumes "getWeatherData digits strNum f pg = (Inl e, pg')"
  shows "\<exists>pre. toasts pg' = toasts pg @ pre
           @ [(''Failed to fetch weather data. Please check your API key and connection.'',
                 ''error'')]"
  using assms
  by (auto simp add: getWeatherData_def getWeatherData_try_def Let_def page_defs
      split: fetched.splits if_splits sum.splits option.splits prod.splits)

lemma payload_fields:
  "error payloadError = Some \<lparr>info = Some ''Invalid access key''\<rparr>"
  "current payloadError = Some currentNight"
  "error payloadEmpty = None" "current payloadEmpty = None"
  "error payloadBare = None" "current payloadBare = Some currentBare"
  by (simp_all add: payloadError_def payloadEmpty_def payloadBare_def)


lemma run_payloadBare:
  "getWeatherData anyDigits anyStrNum (delivered 200 payloadBare) emptyPage
     = (Inr readingBare, emptyPage)"
proof -
  have u: "uvIndexOf anyDigits anyStrNum (Number (Fin (5 / 2))) = Fin 3"
    by (simp add: uvIndexOf_def js_or_def)
  show ?thesis
    by (simp add: getWeatherData_def getWeatherData_try_def delivered_def payloadBare_def
        currentBare_def readingBare_def u getUVDescription_def show_defs js_or_def)
qed

subsection \<open>The normalized UV index\<close>

text \<open>
  C3. The claim: the normalized UV index is \<^verbatim>\<open>clamp(round(rawUv ?? 5), 1, 11)\<close>, the
  default 5 standing in only for a missing value, so that a raw \<^verbatim>\<open>uv_index\<close> of 0 gives 1.
  The code means to do this (its comment: normalize the UV index to the valid range 1 to
  11) but writes \<^verbatim>\<open>||\<close>, which takes the ordinary value 0 for a missing one: the values
  0.4 and -1 are lifted to 1, as the clamp intends, and 0 alone becomes 5. The weather
  object of a night reading with UV index 0 says \<^verbatim>\<open>"5 (Moderate)"\<close>. The theorem runs the
  code there.
\<close>

theorem uvIndexOf_zero_gives_five:
  "uvIndexOf digits strNum (Number (Fin 0)) = Fin 5
   \<and> spec_uvIndex digits strNum (Number (Fin 0)) = Fin 1
   \<and> uvIndexOf digits strNum (Number (Fin 0)) \<noteq> spec_uvIndex digits strNum (Number (Fin 0))
   \<and> uvIndexOf digits strNum (Number (Fin (2 / 5))) = Fin 1
   \<and> uvIndexOf digits strNum (Number (Fin (- 1))) = Fin 1
   \<and> getWeatherData anyDigits anyStrNum (delivered 200 payloadNight) emptyPage =
       (Inr \<lparr>temperature = ''12'' @ [CHR 0xB0] @ ''C'', condition = ''Clear'',
             precipitation = ''0%'', windSpeed = ''9 km/h'', uvIndex = ''5 (Moderate)''\<rparr>,
        emptyPage)"
proof -
  have a: "uvIndexOf digits strNum (Number (Fin 0)) = Fin 5" for digits strNum
    by (simp add: uvIndexOf_def js_or_def floor_eq_iff)
  have b: "spec_uvIndex digits strNum (Number (Fin 0)) = Fin 1"
    by (simp add: spec_uvIndex_def spec_clamp_def floor_eq_iff)
  have d: "uvIndexOf digits strNum (Number (Fin (2 / 5))) = Fin 1"
    by (simp add: uvIndexOf_def js_or_def floor_eq_iff)
  have e: "uvIndexOf digits strNum (Number (Fin (- 1))) = Fin 1"
    by (simp add: uvIndexOf_def js_or_def floor_eq_iff)
  have c: "getWeatherData anyDigits anyStrNum (delivered 200 payloadNight) emptyPage =
       (Inr \<lparr>temperature = ''12'' @ [CHR 0xB0] @ ''C'', condition = ''Clear'',
             precipitation = ''0%'', windSpeed = ''9 km/h'', uvIndex = ''5 (Moderate)''\<rparr>,
        emptyPage)"
    by (simp add: getWeatherData_def getWeatherData_try_def delivered_def payloadNight_def
        currentNight_def a getUVDescription_def show_defs js_or_def)
  from a [of digits strNum] b c d e show ?thesis by simp
qed

text \<open>
  C4. The claim: for every raw \<^verbatim>\<open>uv_index\<close> of the provider the normalized UV index is an
  integer from 1 to 11. The code means to guarantee this (its comment: normalize the UV
  index to the valid range 1 to 11) and does so for a missing value, \<^verbatim>\<open>null\<close> and every
  number, but it has no case for a value that is no number: on the text \<^verbatim>\<open>"abc"\<close> or on an
  object, \<^verbatim>\<open>Math.round\<close> gives \<^verbatim>\<open>NaN\<close>, which \<^verbatim>\<open>Math.max\<close> and \<^verbatim>\<open>Math.min\<close> pass on. The
  weather object then says \<^verbatim>\<open>"NaN (Extreme)"\<close>, and \<^verbatim>\<open>parseInt\<close> reads no integer from it.
  The theorem runs the code there.
\<close>

theorem uvIndexOf_text_gives_NaN:
  "uvIndexOf digits strNum (String ''abc'') = NaN
   \<and> uvIndexOf digits strNum Object = NaN
   \<and> getWeatherData anyDigits anyStrNum (delivered 200 payloadText) emptyPage
       = (Inr readingNaN, emptyPage)
   \<and> uvIndex readingNaN = ''NaN (Extreme)''
   \<and> parseInt (uvIndex readingNaN) = None"
proof -
  have a: "uvIndexOf digits strNum (String ''abc'') = NaN" for digits strNum
    by (simp add: uvIndexOf_def js_or_def StringToNumber_def trim_def isWhiteSpace_def
        isRadixDigit_def digitValue_def)
  have b: "uvIndexOf digits strNum Object = NaN"
    by (simp add: uvIndexOf_def js_or_def)
  have c: "getWeatherData anyDigits anyStrNum (delivered 200 payloadText) emptyPage
       = (Inr readingNaN, emptyPage)"
    by (simp add: getWeatherData_def getWeatherData_try_def delivered_def payloadText_def
        currentText_def readingNaN_def a getUVDescription_def show_defs js_or_def)
  have d: "uvIndex readingNaN = ''NaN (Extreme)''"
    by (simp add: readingNaN_def)
  have e: "parseInt (uvIndex readingNaN) = None"
    by (simp add: readingNaN_def parse_defs)
  from a [of digits strNum] b c d e show ?thesis by simp
qed

subsection \<open>Failure and success of the normalizer\<close>



text \<open>
  C7, as the claim states it: when normalization fails, the normalizer only hands the
  failure to its caller and shows nothing to the user. On an empty document the function
  fails and has shown a toast.
\<close>

theorem getWeatherData_toast_counterexample:
  "fst (getWeatherData anyDigits anyStrNum (delivered 200 payloadEmpty) emptyPage)
     = Inl (Error ''Invalid response format from weather API'')
   \<and> toasts (snd (getWeatherData anyDigits anyStrNum (delivered 200 payloadEmpty) emptyPage))
     = [(''Failed to fetch weather data. Please check your API key and connection.'', ''error'')]
   \<and> toasts (snd (getWeatherData anyDigits anyStrNum (delivered 200 payloadEmpty) emptyPage))
     \<noteq> toasts emptyPage"
  by (simp add: getWeatherData_no_current payload_fields emptyPage_def)

text \<open>
  C7, amended. The normalizer has no effect on the page only when it succeeds. When it
  fails it reports the failure itself with \<^verbatim>\<open>showErrorMessage\<close> and then throws the error
  to its caller: for a provider error object it shows the toast
  \<^verbatim>\<open>"Weather API error: "\<close> with the provider's message (or \<^verbatim>\<open>"Unknown error"\<close>) and then
  the toast \<^verbatim>\<open>"Failed to fetch weather data. Please check your API key and connection."\<close>;
  for a missing \<^verbatim>\<open>current\<close> object it shows that second toast alone; and every failure,
  of any kind, ends with that toast.
\<close>

theorem getWeatherData_reports_failures:
  "(\<forall>err. error data = Some err
      \<longrightarrow> fst (getWeatherData digits strNum (delivered s data) pg)
            = Inl (Error (or_string (info err) ''Unknown API error''))
          \<and> toasts (snd (getWeatherData digits strNum (delivered s data) pg))
            = toasts pg
              @ [(''Weather API error: '' @ or_string (info err) ''Unknown error'', ''error''),
                 (''Failed to fetch weather data. Please check your API key and connection.'',
                  ''error'')])
   \<and> (error data = None \<and> current data = None
      \<longrightarrow> fst (getWeatherData digits strNum (delivered s data) pg)
            = Inl (Error ''Invalid response format from weather API'')
          \<and> toasts (snd (getWeatherData digits strNum (delivered s data) pg))
            = toasts pg
              @ [(''Failed to fetch weather data. Please check your API key and connection.'',
                  ''error'')])
   \<and> (\<forall>f e pg'. getWeatherData digits strNum f pg = (Inl e, pg')
      \<longrightarrow> (\<exists>pre. toasts pg' = toasts pg @ pre
              @ [(''Failed to fetch weather data. Please check your API key and connection.'',
                  ''error'')]))
   \<and> (\<forall>f r pg'. getWeatherData digits strNum f pg = (Inr r, pg') \<longrightarrow> pg' = pg)"
  using getWeatherData_provider_error [where data = data and digits = digits
      and strNum = strNum and s = s and pg = pg]
    getWeatherData_no_current [where data = data and digits = digits
      and strNum = strNum and s = s and pg = pg]
    getWeatherData_failure_toast [where digits = digits and strNum = strNum and pg = pg]
    getWeatherData_success_pure [where digits = digits and strNum = strNum and pg = pg]
  by blast

theorem getWeatherData_reports_failures_witness:
  "error payloadError = Some \<lparr>info = Some ''Invalid access key''\<rparr>
   \<and> fst (getWeatherData anyDigits anyStrNum (delivered 200 payloadError) emptyPage)
       = Inl (Error ''Invalid access key'')
   \<and> toasts (snd (getWeatherData anyDigits anyStrNum (delivered 200 payloadError) emptyPage))
       = [(''Weather API error: Invalid access key'', ''error''),
          (''Failed to fetch weather data. Please check your API key and connection.'',
           ''error'')]
   \<and> error payloadEmpty = None \<and> current payloadEmpty = None
   \<and> toasts (snd (getWeatherData anyDigits anyStrNum (delivered 200 payloadEmpty) emptyPage))
       = [(''Failed to fetch weather data. Please check your API key and connection.'',
           ''error'')]
   \<and> getWeatherData anyDigits anyStrNum (delivered 200 payloadBare) emptyPage
       = (Inr readingBare, emptyPage)"
proof -
  note t1 = getWeatherData_reports_failures
    [where digits = anyDigits and strNum = anyStrNum and s = 200 and data = payloadError
      and pg = emptyPage]
  note t2 = getWeatherData_reports_failures
    [where digits = anyDigits and strNum = anyStrNum and s = 200 and data = payloadEmpty
      and pg = emptyPage]
  have e: "toasts emptyPage = []" by (simp add: emptyPage_def)
  have a: "fst (getWeatherData anyDigits anyStrNum (delivered 200 payloadError) emptyPage)
       = Inl (Error ''Invalid access key'')"
    using t1 payload_fields(1) by simp
  have b: "toasts (snd (getWeatherData anyDigits anyStrNum (delivered 200 payloadError) emptyPage))
       = [(''Weather API error: Invalid access key'', ''error''),
          (''Failed to fetch weather data. Please check your API key and connection.'',
           ''error'')]"
    using t1 payload_fields(1) e by simp
  have c: "toasts (snd (getWeatherData anyDigits anyStrNum (delivered 200 payloadEmpty) emptyPage))
       = [(''Failed to fetch weather data. Please check your API key and connection.'',
           ''error'')]"
    using t2 payload_fields(3,4) e by simp
  from a b c payload_fields run_payloadBare show ?thesis by simp
qed

end
